theory Spec2Isabelle
  imports Main
begin

section \<open>The values the script handles\<close>

text \<open>
  \<^verbatim>\<open>static/script.js\<close> registers two event handlers on a page: one for the
  \<^verbatim>\<open>submit\<close> event of the report form, one for the \<^verbatim>\<open>click\<close> event of the copy
  button. Both talk to the platform (the network, the clipboard, timers), so the model
  takes what the platform answers as an input and returns what the handler does as a list
  of actions, in the order of the source's statements.

  A value parsed from a response body by \<^verbatim>\<open>response.json()\<close> is a JSON value. The
  handlers never compute with a number: they only test whether it is truthy and turn it
  into text, so a number is kept as these two observations (whether it is zero, and its
  text as \<^verbatim>\<open>String(n)\<close> gives it). An object is the list of its own properties,
  each name once.
\<close>

datatype json =
    JNull
  | JBool bool
  | JNum (num_zero: bool) (num_text: string)
  | JStr string
  | JArr "json list"
  | JObj "(string \<times> json) list"

text \<open>
  Every value the handlers catch is an error object, and all they read from it is its
  \<^verbatim>\<open>message\<close>. \<open>Rejected\<close> is the reason of a promise the platform rejected (a
  failed \<^verbatim>\<open>fetch\<close>, a body that is not JSON, a refused clipboard write).
\<close>

datatype js_error = Error string | TypeError string | Rejected string

fun message :: "js_error \<Rightarrow> string" where
  "message (Error m) = m"
| "message (TypeError m) = m"
| "message (Rejected m) = m"

text \<open>
  The text of the \<^verbatim>\<open>TypeError\<close>s the script engine raises by itself differs between
  browsers, so it is a parameter: the message for reading property \<open>k\<close> of
  \<^verbatim>\<open>null\<close>, and the message for an object that has no primitive value.
\<close>

record engine =
  null_property_message :: "string \<Rightarrow> string"
  to_primitive_message :: string

text \<open>Truthiness, as \<^verbatim>\<open>if (v)\<close> and \<^verbatim>\<open>v || w\<close> test it.\<close>

fun truthy :: "json \<Rightarrow> bool" where
  "truthy JNull = False"
| "truthy (JBool b) = b"
| "truthy (JNum z t) = (\<not> z)"
| "truthy (JStr s) = (s \<noteq> [])"
| "truthy (JArr xs) = True"
| "truthy (JObj kvs) = True"

text \<open>
  The own property \<open>k\<close> of a value, \<open>None\<close> when it has none. Only an object
  parsed from JSON has own properties with the names the script reads.
\<close>

fun field :: "json \<Rightarrow> string \<Rightarrow> json option" where
  "field (JObj kvs) k = map_of kvs k"
| "field v k = None"

text \<open>
  The property read \<^verbatim>\<open>v.k\<close>, for a name \<open>k\<close> that no built-in prototype
  defines (the script reads \<^verbatim>\<open>report\<close> and \<^verbatim>\<open>error\<close>): \<open>None\<close> is
  \<^verbatim>\<open>undefined\<close>, and reading a property of \<^verbatim>\<open>null\<close> throws.
\<close>

fun get_prop :: "engine \<Rightarrow> json \<Rightarrow> string \<Rightarrow> js_error + json option" where
  "get_prop eng JNull k = Inl (TypeError (null_property_message eng k))"
| "get_prop eng v k = Inr (field v k)"

fun join :: "string list \<Rightarrow> string" where
  "join [] = []"
| "join [x] = x"
| "join (x # y # ys) = x @ '','' @ join (y # ys)"

fun collect :: "(js_error + 'a) list \<Rightarrow> js_error + 'a list" where
  "collect [] = Inr []"
| "collect (Inl e # rs) = Inl e"
| "collect (Inr x # rs) = (case collect rs of Inl e \<Rightarrow> Inl e | Inr xs \<Rightarrow> Inr (x # xs))"

text \<open>
  The conversion to a string that \<^verbatim>\<open>new Error(v)\<close> and the \<^verbatim>\<open>textContent\<close>
  setter apply to a value that is not a string already. An array is the texts of its
  elements joined by commas, \<^verbatim>\<open>null\<close> elements giving the empty text. An object
  parsed from JSON is \<^verbatim>\<open>[object Object]\<close>, unless it has an own property
  \<^verbatim>\<open>toString\<close>: that property is not a function, \<^verbatim>\<open>valueOf\<close> gives no
  primitive either, and the conversion throws.
\<close>

fun to_string :: "engine \<Rightarrow> json \<Rightarrow> js_error + string" where
  "to_string eng JNull = Inr ''null''"
| "to_string eng (JBool b) = Inr (if b then ''true'' else ''false'')"
| "to_string eng (JNum z t) = Inr t"
| "to_string eng (JStr s) = Inr s"
| "to_string eng (JArr xs) =
     (case collect (map (\<lambda>x. if x = JNull then Inr [] else to_string eng x) xs) of
        Inl e \<Rightarrow> Inl e
      | Inr ts \<Rightarrow> Inr (join ts))"
| "to_string eng (JObj kvs) =
     (if map_of kvs ''toString'' = None then Inr ''[object Object]''
      else Inl (TypeError (to_primitive_message eng)))"

text \<open>The decimal text of a natural number, as a template literal renders a status code.\<close>

definition digit :: "nat \<Rightarrow> char" where
  "digit d = ''0123456789'' ! d"

function show_nat :: "nat \<Rightarrow> string" where
  "show_nat n = (if n < 10 then [digit n] else show_nat (n div 10) @ [digit (n mod 10)])"
  by pat_completeness auto
termination
  by (relation "measure id") auto

declare show_nat.simps [simp del]

section \<open>The platform: requests, responses, the page\<close>

record request =
  url :: string
  http_method :: string
  headers :: "(string \<times> string) list"
  body :: json

text \<open>
  The request's \<open>body\<close> is the value handed to \<^verbatim>\<open>JSON.stringify\<close>, whose text is
  what is sent. A response is its status code and what \<^verbatim>\<open>response.json()\<close> settles
  to: the parsed value, or the rejection when the body is not JSON.
\<close>

record response =
  status :: nat
  json_body :: "js_error + json"

definition ok :: "response \<Rightarrow> bool" where
  "ok r = (200 \<le> status r \<and> status r \<le> 299)"

datatype fetch_outcome = NetworkFailure js_error | Response response

datatype clipboard_outcome = WriteOk | WriteFailed js_error

datatype element = ResultArea | ErrorArea | LoadingDiv

datatype text_node = ReportOutput | ErrorMessage | CopyButton

text \<open>
  One action per statement of the handlers that touches the page or the platform.
  \<open>Await\<close> is a point where the handler is suspended and the browser can run other
  work and repaint. \<open>WriteText\<close> is a clipboard write the platform carried out.
\<close>

datatype action =
    PreventDefault
  | SetDisplay element string
  | SetDisabled bool
  | SetTextContent text_node string
  | Fetch request
  | Await
  | ConsoleError string string
  | WriteText string
  | Alert string
  | SetTimeout "action list" nat

text \<open>
  The page: the \<^verbatim>\<open>style.display\<close> of the three regions, the \<^verbatim>\<open>disabled\<close> flag of
  the generate button, the \<^verbatim>\<open>textContent\<close> of the three text nodes, the values of the
  two inputs, and what the platform has received from the script. The document itself is
  not part of the sources: it is taken to provide every element the script looks up, and
  the browser to provide the clipboard interface.
\<close>

record page =
  result_display :: string
  error_display :: string
  loading_display :: string
  generate_disabled :: bool
  report_text :: string
  error_text :: string
  copy_label :: string
  findings_value :: string
  template_value :: string
  requests :: "request list"
  console :: "(string \<times> string) list"
  alerts :: "string list"
  clipboard :: string
  timers :: "(nat \<times> action list) list"

fun perform :: "action \<Rightarrow> page \<Rightarrow> page" where
  "perform PreventDefault w = w"
| "perform (SetDisplay ResultArea d) w = w\<lparr>result_display := d\<rparr>"
| "perform (SetDisplay ErrorArea d) w = w\<lparr>error_display := d\<rparr>"
| "perform (SetDisplay LoadingDiv d) w = w\<lparr>loading_display := d\<rparr>"
| "perform (SetDisabled b) w = w\<lparr>generate_disabled := b\<rparr>"
| "perform (SetTextContent ReportOutput t) w = w\<lparr>report_text := t\<rparr>"
| "perform (SetTextContent ErrorMessage t) w = w\<lparr>error_text := t\<rparr>"
| "perform (SetTextContent CopyButton t) w = w\<lparr>copy_label := t\<rparr>"
| "perform (Fetch r) w = w\<lparr>requests := requests w @ [r]\<rparr>"
| "perform Await w = w"
| "perform (ConsoleError l m) w = w\<lparr>console := console w @ [(l, m)]\<rparr>"
| "perform (WriteText t) w = w\<lparr>clipboard := t\<rparr>"
| "perform (Alert m) w = w\<lparr>alerts := alerts w @ [m]\<rparr>"
| "perform (SetTimeout cb d) w = w\<lparr>timers := timers w @ [(d, cb)]\<rparr>"

fun exec :: "action list \<Rightarrow> page \<Rightarrow> page" where
  "exec [] w = w"
| "exec (a # as) w = exec as (perform a w)"

text \<open>Every action of a run with the page it leaves, in order.\<close>

fun steps :: "action list \<Rightarrow> page \<Rightarrow> (action \<times> page) list" where
  "steps [] w = []"
| "steps (a # as) w = (a, perform a w) # steps as (perform a w)"

text \<open>
  Time passing by \<open>t\<close> with no other event: the timers that are due run, earliest
  first, the others are \<open>t\<close> closer. A timer a callback sets stays pending.
\<close>

definition advance :: "nat \<Rightarrow> page \<Rightarrow> page" where
  "advance t w =
     exec (concat (map snd (sort_key fst (filter (\<lambda>(r, cb). r \<le> t) (timers w)))))
       (w\<lparr>timers := map (\<lambda>(r, cb). (r - t, cb)) (filter (\<lambda>(r, cb). \<not> r \<le> t) (timers w))\<rparr>)"

section \<open>The submit handler\<close>

text \<open>
  A block of statements is the actions it performed and the error it threw, if any.
  \<open>try_catch_finally\<close> is the control flow of \<^verbatim>\<open>try { } catch (e) { } finally { }\<close>:
  the \<^verbatim>\<open>finally\<close> block always runs, and an error leaves the statement only when
  the \<^verbatim>\<open>catch\<close> or the \<^verbatim>\<open>finally\<close> block throws one.
\<close>

type_synonym block = "action list \<times> js_error option"

definition try_catch_finally :: "block \<Rightarrow> (js_error \<Rightarrow> block) \<Rightarrow> block \<Rightarrow> block" where
  "try_catch_finally tried handler finalizer =
     (let (acts, thrown) =
            (case snd tried of
               None \<Rightarrow> tried
             | Some e \<Rightarrow> (fst tried @ fst (handler e), snd (handler e)))
      in (acts @ fst finalizer,
          case snd finalizer of None \<Rightarrow> thrown | Some e \<Rightarrow> Some e))"

text \<open>
  Lines 36 to 42: the value of \<^verbatim>\<open>errorMsg\<close> after the inner \<^verbatim>\<open>try\<close>, whose
  \<^verbatim>\<open>catch\<close> ignores both a body that is not JSON and a failing property read.
\<close>

definition error_msg :: "engine \<Rightarrow> response \<Rightarrow> json" where
  "error_msg eng resp =
     (let errorMsg = JStr (''HTTP error! Status: '' @ show_nat (status resp))
      in case json_body resp of
           Inl e \<Rightarrow> errorMsg
         | Inr errorData \<Rightarrow>
             (case get_prop eng errorData ''error'' of
                Inl e \<Rightarrow> errorMsg
              | Inr None \<Rightarrow> errorMsg
              | Inr (Some v) \<Rightarrow> if truthy v then v else errorMsg))"

text \<open>
  What \<^verbatim>\<open>throw new Error(v)\<close> throws: the new error, or the \<^verbatim>\<open>TypeError\<close> of
  converting \<open>v\<close> to its message.
\<close>

definition new_Error :: "engine \<Rightarrow> json \<Rightarrow> js_error" where
  "new_Error eng v = (case to_string eng v of Inl e \<Rightarrow> e | Inr m \<Rightarrow> Error m)"

text \<open>
  Lines 51 to 55: the error thrown when \<^verbatim>\<open>data.report\<close> is not truthy.
\<close>

definition no_report :: "engine \<Rightarrow> json \<Rightarrow> js_error" where
  "no_report eng data =
     (case get_prop eng data ''error'' of
        Inl e \<Rightarrow> e
      | Inr None \<Rightarrow> Error ''Received an unexpected response from the server.''
      | Inr (Some v) \<Rightarrow>
          if truthy v then new_Error eng v
          else Error ''Received an unexpected response from the server.'')"

text \<open>
  Lines 26 to 55, the \<^verbatim>\<open>try\<close> block. The handler is suspended twice: until
  \<^verbatim>\<open>fetch\<close> settles, and until \<^verbatim>\<open>response.json()\<close> does.
\<close>

definition try_block :: "engine \<Rightarrow> request \<Rightarrow> fetch_outcome \<Rightarrow> block" where
  "try_block eng req outcome =
     (case outcome of
        NetworkFailure e \<Rightarrow> ([Fetch req, Await], Some e)
      | Response resp \<Rightarrow>
          if \<not> ok resp then
            ([Fetch req, Await, Await], Some (new_Error eng (error_msg eng resp)))
          else
            (case json_body resp of
               Inl e \<Rightarrow> ([Fetch req, Await, Await], Some e)
             | Inr data \<Rightarrow>
                 (case get_prop eng data ''report'' of
                    Inl e \<Rightarrow> ([Fetch req, Await, Await], Some e)
                  | Inr None \<Rightarrow> ([Fetch req, Await, Await], Some (no_report eng data))
                  | Inr (Some report) \<Rightarrow>
                      if truthy report then
                        (case to_string eng report of
                           Inl e \<Rightarrow> ([Fetch req, Await, Await], Some e)
                         | Inr t \<Rightarrow>
                             ([Fetch req, Await, Await,
                               SetTextContent ReportOutput t,
                               SetDisplay ResultArea ''block''], None))
                      else ([Fetch req, Await, Await], Some (no_report eng data)))))"

text \<open>Lines 57 to 60, the \<^verbatim>\<open>catch\<close> block, and lines 61 to 65, the \<^verbatim>\<open>finally\<close> block.\<close>

definition catch_block :: "js_error \<Rightarrow> block" where
  "catch_block e =
     ([ConsoleError ''Error generating report:'' (message e),
       SetTextContent ErrorMessage (''Failed to generate report: '' @ message e),
       SetDisplay ErrorArea ''block''], None)"

definition finally_block :: block where
  "finally_block = ([SetDisplay LoadingDiv ''none'', SetDisabled False], None)"

text \<open>Lines 12 to 20, before the inputs are read.\<close>

definition reset_actions :: "action list" where
  "reset_actions =
     [PreventDefault,
      SetDisplay ResultArea ''none'',
      SetDisplay ErrorArea ''none'',
      SetDisplay LoadingDiv ''block'',
      SetDisabled True,
      SetTextContent ReportOutput [],
      SetTextContent ErrorMessage []]"

text \<open>Lines 22 to 32: the request built from the two input values.\<close>

definition report_request :: "page \<Rightarrow> request" where
  "report_request w =
     \<lparr>url = ''/generate_report'',
      http_method = ''POST'',
      headers = [(''Content-Type'', ''application/json'')],
      body = JObj [(''findings'', JStr (findings_value w)),
                   (''template'', JStr (template_value w))]\<rparr>"

text \<open>
  The whole handler on page \<open>w\<close>, when the platform answers the request with
  \<open>outcome\<close>: its actions, and the error that leaves it uncaught, if any.
\<close>

definition submit_handler :: "engine \<Rightarrow> page \<Rightarrow> fetch_outcome \<Rightarrow> block" where
  "submit_handler eng w outcome =
     (let rest = try_catch_finally
                   (try_block eng (report_request (exec reset_actions w)) outcome)
                   catch_block finally_block
      in (reset_actions @ fst rest, snd rest))"

definition handle_submit :: "engine \<Rightarrow> page \<Rightarrow> fetch_outcome \<Rightarrow> page" where
  "handle_submit eng w outcome = exec (fst (submit_handler eng w outcome)) w"

section \<open>The copy handler\<close>

text \<open>Lines 69 to 81.\<close>

definition copy_handler :: "page \<Rightarrow> clipboard_outcome \<Rightarrow> block" where
  "copy_handler w outcome =
     (case outcome of
        WriteOk \<Rightarrow>
          ([WriteText (report_text w), Await,
            SetTextContent CopyButton ''Copied!'',
            SetTimeout [SetTextContent CopyButton ''Copy Report to Clipboard''] 2000], None)
      | WriteFailed err \<Rightarrow>
          ([Await,
            ConsoleError ''Failed to copy text: '' (message err),
            Alert ''Failed to copy report. Please copy manually.''], None))"

definition handle_copy :: "page \<Rightarrow> clipboard_outcome \<Rightarrow> page" where
  "handle_copy w outcome = exec (fst (copy_handler w outcome)) w"

section \<open>What the user sees\<close>

text \<open>
  A region is visible unless its \<^verbatim>\<open>style.display\<close> is \<^verbatim>\<open>none\<close>; the script
  sets it to \<^verbatim>\<open>none\<close> or to \<^verbatim>\<open>block\<close>.
\<close>

definition visible :: "string \<Rightarrow> bool" where
  "visible d = (d \<noteq> ''none'')"

definition at_most_one_visible :: "page \<Rightarrow> bool" where
  "at_most_one_visible w =
     (length (filter visible [loading_display w, result_display w, error_display w]) \<le> 1)"

text \<open>What the three regions and the generate button show.\<close>

definition regions :: "page \<Rightarrow> string \<times> string \<times> string \<times> string \<times> string \<times> bool" where
  "regions w =
     (result_display w, report_text w, error_display w, error_text w,
      loading_display w, generate_disabled w)"

fun is_fetch :: "action \<Rightarrow> bool" where
  "is_fetch (Fetch r) = True"
| "is_fetch a = False"

text \<open>The pages at which a run is suspended.\<close>

definition suspended_pages :: "action list \<Rightarrow> page \<Rightarrow> page list" where
  "suspended_pages acts w = map snd (filter (\<lambda>(a, s). a = Await) (steps acts w))"

text \<open>
  The pages of a run from the statement that sends the request up to, and not including,
  the last statement of the run.
\<close>

definition in_flight_pages :: "action list \<Rightarrow> page \<Rightarrow> page list" where
  "in_flight_pages acts w =
     map snd (dropWhile (\<lambda>(a, s). \<not> is_fetch a) (butlast (steps acts w)))"

text \<open>
  A step of a run is the action performed and the page it leaves. A step is tidy when it
  leaves at most one region visible, or is one of the two statements that show a region
  (lines 50 and 60).
\<close>

definition tidy_step :: "action \<times> page \<Rightarrow> bool" where
  "tidy_step p =
     (fst p = SetDisplay ResultArea ''block'' \<or> fst p = SetDisplay ErrorArea ''block''
      \<or> at_most_one_visible (snd p))"

text \<open>
  Every pending timer was set by the copy handler: its callback restores the label of the
  copy button.
\<close>

definition script_timers :: "page \<Rightarrow> bool" where
  "script_timers w =
     list_all (\<lambda>(r, cb). cb = [SetTextContent CopyButton ''Copy Report to Clipboard''])
       (timers w)"

text \<open>
  What can happen to a page while a submission is suspended: the copy button is clicked,
  time passes and the user edits the two inputs, any number of times.
\<close>

inductive meanwhile :: "page \<Rightarrow> page \<Rightarrow> bool" where
  nothing: "meanwhile s s"
| click: "meanwhile s s' \<Longrightarrow> meanwhile s (handle_copy s' outcome)"
| tick: "meanwhile s s' \<Longrightarrow> meanwhile s (advance t s')"
| edit: "meanwhile s s' \<Longrightarrow> meanwhile s (s'\<lparr>findings_value := f, template_value := t\<rparr>)"

code_pred meanwhile .

text \<open>
  For the examples: a page with the two inputs filled in, nothing displayed and nothing
  pending, and an engine with the messages of V8.
\<close>

definition loaded_page :: "string \<Rightarrow> string \<Rightarrow> page" where
  "loaded_page f t =
     \<lparr>result_display = ''none'', error_display = ''none'', loading_display = ''none'',
      generate_disabled = False, report_text = [], error_text = [],
      copy_label = ''Copy Report to Clipboard'',
      findings_value = f, template_value = t,
      requests = [], console = [], alerts = [], clipboard = [], timers = []\<rparr>"

definition v8 :: engine where
  "v8 =
     \<lparr>null_property_message =
        (\<lambda>k. ''Cannot read properties of null (reading '' @ [CHR 0x27] @ k @ [CHR 0x27] @ '')''),
      to_primitive_message = ''Cannot convert object to primitive value''\<rparr>"


section \<open>Runs of the submit handler\<close>


lemma report_request_reset: "report_request (exec reset_actions w) = report_request w"
  by (simp add: report_request_def reset_actions_def)

text \<open>The \<^verbatim>\<open>try\<close> block has three shapes: two that throw, one that does not.\<close>

lemma try_block_thrown:
  "try_block eng req oc = (acts, Some e) \<Longrightarrow>
     acts = [Fetch req, Await] \<or> acts = [Fetch req, Await, Await]"
  by (auto simp: try_block_def split: fetch_outcome.splits sum.splits option.splits if_splits)

lemma try_block_normal:
  "try_block eng req oc = (acts, None) \<Longrightarrow>
     \<exists>t. acts = [Fetch req, Await, Await, SetTextContent ReportOutput t,
                 SetDisplay ResultArea ''block'']"
  by (auto simp: try_block_def split: fetch_outcome.splits sum.splits option.splits if_splits)

lemma submit_thrown:
  "try_block eng (report_request w) oc = (acts, Some e) \<Longrightarrow>
   submit_handler eng w oc =
     (reset_actions @ acts @ fst (catch_block e) @ fst finally_block, None)"
  by (simp add: submit_handler_def try_catch_finally_def report_request_reset
      catch_block_def finally_block_def)

lemma submit_normal:
  "try_block eng (report_request w) oc = (acts, None) \<Longrightarrow>
   submit_handler eng w oc = (reset_actions @ acts @ fst finally_block, None)"
  by (simp add: submit_handler_def try_catch_finally_def report_request_reset
      catch_block_def finally_block_def)

lemma submit_shape:
  "(\<exists>e. fst (submit_handler eng w oc) =
          reset_actions @ [Fetch (report_request w), Await] @
          fst (catch_block e) @ fst finally_block)
   \<or> (\<exists>e. fst (submit_handler eng w oc) =
          reset_actions @ [Fetch (report_request w), Await, Await] @
          fst (catch_block e) @ fst finally_block)
   \<or> (\<exists>t. fst (submit_handler eng w oc) =
          reset_actions @ [Fetch (report_request w), Await, Await,
            SetTextContent ReportOutput t, SetDisplay ResultArea ''block''] @
          fst finally_block)"
proof (cases "try_block eng (report_request w) oc")
  case (Pair acts thrown)
  show ?thesis
  proof (cases thrown)
    case None
    with Pair try_block_normal submit_normal show ?thesis by fastforce
  next
    case (Some e)
    with Pair try_block_thrown [of eng "report_request w" oc acts e]
      submit_thrown [of eng w oc acts e]
    show ?thesis by auto
  qed
qed

text \<open>The page a run ends in, when the \<^verbatim>\<open>try\<close> block threw and when it did not.\<close>

lemma failed_page:
  assumes "try_block eng (report_request w) oc = (acts, Some e)"
  shows "handle_submit eng w oc =
     w\<lparr>result_display := ''none'', error_display := ''block'', loading_display := ''none'',
       generate_disabled := False, report_text := [],
       error_text := ''Failed to generate report: '' @ message e,
       requests := requests w @ [report_request w],
       console := console w @ [(''Error generating report:'', message e)]\<rparr>"
  using try_block_thrown [OF assms] submit_thrown [OF assms]
  by (auto simp: handle_submit_def reset_actions_def catch_block_def finally_block_def)

lemma succeeded_page:
  assumes "try_block eng (report_request w) oc =
     ([Fetch (report_request w), Await, Await, SetTextContent ReportOutput t,
       SetDisplay ResultArea ''block''], None)"
  shows "handle_submit eng w oc =
     w\<lparr>result_display := ''block'', error_display := ''none'', loading_display := ''none'',
       generate_disabled := False, report_text := t, error_text := [],
       requests := requests w @ [report_request w]\<rparr>"
  using submit_normal [OF assms]
  by (auto simp: handle_submit_def reset_actions_def catch_block_def finally_block_def)

lemma get_prop_field: "field data k = Some v \<Longrightarrow> get_prop eng data k = Inr (Some v)"
  by (cases data) auto

lemma get_prop_not_null: "data \<noteq> JNull \<Longrightarrow> get_prop eng data k = Inr (field data k)"
  by (cases data) auto

lemma submit_caught: "snd (submit_handler eng w oc) = None"
proof (cases "try_block eng (report_request w) oc")
  case (Pair acts thrown)
  then show ?thesis
    by (cases thrown) (simp_all add: submit_thrown submit_normal)
qed

text \<open>
  Where a run ends: the loading indicator is hidden, and either the result area is shown
  and the error message is empty, or the error area is shown and the report is empty.
\<close>

lemma ended_regions:
  "loading_display (handle_submit eng w oc) = ''none''
   \<and> (result_display (handle_submit eng w oc) = ''block''
        \<and> error_display (handle_submit eng w oc) = ''none''
        \<and> error_text (handle_submit eng w oc) = []
      \<or> result_display (handle_submit eng w oc) = ''none''
        \<and> error_display (handle_submit eng w oc) = ''block''
        \<and> report_text (handle_submit eng w oc) = [])"
proof (cases "try_block eng (report_request w) oc")
  case (Pair acts thrown)
  show ?thesis
  proof (cases thrown)
    case None
    with Pair try_block_normal [of eng "report_request w" oc acts]
    obtain t where t: "try_block eng (report_request w) oc =
      ([Fetch (report_request w), Await, Await, SetTextContent ReportOutput t,
        SetDisplay ResultArea ''block''], None)"
      by auto
    from succeeded_page [OF t] show ?thesis by simp
  next
    case (Some e)
    with Pair have t: "try_block eng (report_request w) oc = (acts, Some e)" by simp
    from failed_page [OF t] show ?thesis by simp
  qed
qed

lemma show_nat_400: "show_nat 400 = ''400''"
  by (simp add: show_nat.simps [of 400] show_nat.simps [of 40] show_nat.simps [of 4] digit_def)

lemma visible_none [simp]: "\<not> visible ''none''"
  by (simp add: visible_def)

lemma visible_block [simp]: "visible ''block''"
  by (simp add: visible_def)

lemma at_most_one_visible_iff:
  "at_most_one_visible w \<longleftrightarrow>
     (visible (loading_display w) \<longrightarrow>
        \<not> visible (result_display w) \<and> \<not> visible (error_display w))
     \<and> (visible (result_display w) \<longrightarrow> \<not> visible (error_display w))"
  by (simp add: at_most_one_visible_def)

lemma steps_append: "steps (xs @ ys) w = steps xs w @ steps ys (exec xs w)"
  by (induction xs arbitrary: w) auto

lemma reset_page:
  "exec reset_actions w =
     w\<lparr>result_display := ''none'', error_display := ''none'', loading_display := ''block'',
       generate_disabled := True, report_text := [], error_text := []\<rparr>"
  by (simp add: reset_actions_def)

text \<open>The handler is suspended at least once in every run.\<close>

lemma suspended_somewhere: "suspended_pages (fst (submit_handler eng w oc)) w \<noteq> []"
  using submit_shape [of eng w oc]
  by (auto simp: suspended_pages_def steps_append reset_actions_def)


section \<open>Pages the handlers reach\<close>

lemma copied_page:
  "handle_copy w WriteOk =
     w\<lparr>clipboard := report_text w, copy_label := ''Copied!'',
       timers := timers w @ [(2000, [SetTextContent CopyButton ''Copy Report to Clipboard''])]\<rparr>"
  by (simp add: handle_copy_def copy_handler_def)

lemma copy_failed_page:
  "handle_copy w (WriteFailed e) =
     w\<lparr>console := console w @ [(''Failed to copy text: '', message e)],
       alerts := alerts w @ [''Failed to copy report. Please copy manually.'']\<rparr>"
  by (simp add: handle_copy_def copy_handler_def)

text \<open>The copy handler leaves the generate button and the three regions as they are.\<close>

lemma copy_keeps_regions: "regions (handle_copy w outcome) = regions w"
  by (cases outcome) (simp_all add: copied_page copy_failed_page regions_def)

text \<open>
  Only the copy handler sets timers, so every page the two handlers reach has only its
  timers.
\<close>

lemma script_timers_loaded: "script_timers (loaded_page f t)"
  by (simp add: script_timers_def loaded_page_def)

lemma script_timers_copy: "script_timers w \<Longrightarrow> script_timers (handle_copy w outcome)"
  by (cases outcome) (simp_all add: copied_page copy_failed_page script_timers_def)

lemma script_timers_submit: "script_timers w \<Longrightarrow> script_timers (handle_submit eng w oc)"
proof (cases "try_block eng (report_request w) oc")
  case (Pair acts thrown)
  assume st: "script_timers w"
  show ?thesis
  proof (cases thrown)
    case None
    with Pair try_block_normal [of eng "report_request w" oc acts]
    obtain t where t: "try_block eng (report_request w) oc =
      ([Fetch (report_request w), Await, Await, SetTextContent ReportOutput t,
        SetDisplay ResultArea ''block''], None)"
      by auto
    from succeeded_page [OF t] st show ?thesis by (simp add: script_timers_def)
  next
    case (Some e)
    with Pair have t: "try_block eng (report_request w) oc = (acts, Some e)" by simp
    from failed_page [OF t] st show ?thesis by (simp add: script_timers_def)
  qed
qed

text \<open>
  So do the timers it sets: their callbacks only write the label of the copy button.
\<close>

lemma exec_labels_regions:
  "set as \<subseteq> {SetTextContent CopyButton l} \<Longrightarrow> regions (exec as w) = regions w"
  by (induction as arbitrary: w) (auto simp: regions_def)

lemma exec_labels_timers:
  "set as \<subseteq> {SetTextContent CopyButton l} \<Longrightarrow> timers (exec as w) = timers w"
  by (induction as arbitrary: w) auto

lemma due_callbacks:
  assumes "script_timers w"
  shows "set (concat (map snd (sort_key fst (filter (\<lambda>(r, cb). r \<le> t) (timers w)))))
      \<subseteq> {SetTextContent CopyButton ''Copy Report to Clipboard''}"
  using assms by (auto simp: script_timers_def list_all_iff)

lemma advance_keeps_regions:
  assumes "script_timers w"
  shows "regions (advance t w) = regions w"
  using exec_labels_regions [OF due_callbacks [OF assms]]
  by (simp add: advance_def regions_def)

lemma script_timers_advance:
  assumes "script_timers w"
  shows "script_timers (advance t w)"
  using exec_labels_timers [OF due_callbacks [OF assms]] assms
  by (auto simp: advance_def script_timers_def list_all_iff)

lemma meanwhile_regions:
  assumes "meanwhile s s'" and "script_timers s"
  shows "regions s' = regions s \<and> script_timers s'"
  using assms
proof (induction rule: meanwhile.induct)
  case (nothing s)
  then show ?case by simp
next
  case (click s s' outcome)
  then show ?case by (simp add: copy_keeps_regions script_timers_copy)
next
  case (tick s s' t)
  then show ?case by (simp add: advance_keeps_regions script_timers_advance)
next
  case (edit s s' f t)
  then show ?case by (simp add: regions_def script_timers_def)
qed

text \<open>A suspended submission has set no timer.\<close>

lemma suspended_timers:
  "s \<in> set (suspended_pages (fst (submit_handler eng w oc)) w) \<Longrightarrow> timers s = timers w"
  using submit_shape [of eng w oc]
  by (auto simp: suspended_pages_def reset_actions_def catch_block_def finally_block_def)

section \<open>A response with a report\<close>

text \<open>
  The test of line 48 is a truthiness test, so a report that is the empty string is not
  shown: the handler falls through to the last branch and reports an unexpected response.
\<close>

lemma empty_report_page:
  "handle_submit eng w
     (Response \<lparr>status = 200, json_body = Inr (JObj [(''report'', JStr [])])\<rparr>) =
   w\<lparr>result_display := ''none'', error_display := ''block'', loading_display := ''none'',
     generate_disabled := False, report_text := [],
     error_text :=
       ''Failed to generate report: Received an unexpected response from the server.'',
     requests := requests w @ [report_request w],
     console := console w @
       [(''Error generating report:'', ''Received an unexpected response from the server.'')]\<rparr>"
proof -
  have "try_block eng (report_request w)
      (Response \<lparr>status = 200, json_body = Inr (JObj [(''report'', JStr [])])\<rparr>) =
      ([Fetch (report_request w), Await, Await],
       Some (Error ''Received an unexpected response from the server.''))"
    by (simp add: try_block_def ok_def no_report_def)
  from failed_page [OF this] show ?thesis by simp
qed

text \<open>
  Claim C1, as amended: when the fetch resolves with a 2xx status and a JSON body whose
  \<^verbatim>\<open>report\<close> field is a non-empty string, the handler writes that string
  unchanged into the report output, makes the result area visible and leaves the error
  area hidden.
\<close>

theorem report_shown:
  assumes "ok resp" and "json_body resp = Inr data"
    and "field data ''report'' = Some (JStr r)" and "r \<noteq> []"
  shows "report_text (handle_submit eng w (Response resp)) = r
       \<and> visible (result_display (handle_submit eng w (Response resp)))
       \<and> \<not> visible (error_display (handle_submit eng w (Response resp)))"
proof -
  have "try_block eng (report_request w) (Response resp) =
      ([Fetch (report_request w), Await, Await, SetTextContent ReportOutput r,
        SetDisplay ResultArea ''block''], None)"
    using assms by (simp add: try_block_def get_prop_field)
  from succeeded_page [OF this] show ?thesis
    by (simp add: visible_def)
qed

theorem report_shown_witness:
  "ok \<lparr>status = 200, json_body = Inr (JObj [(''report'', JStr ''X'')])\<rparr>
   \<and> report_text (handle_submit v8 (loaded_page ''f'' ''t'')
        (Response \<lparr>status = 200, json_body = Inr (JObj [(''report'', JStr ''X'')])\<rparr>)) = ''X''
   \<and> visible (result_display (handle_submit v8 (loaded_page ''f'' ''t'')
        (Response \<lparr>status = 200, json_body = Inr (JObj [(''report'', JStr ''X'')])\<rparr>)))
   \<and> \<not> visible (error_display (handle_submit v8 (loaded_page ''f'' ''t'')
        (Response \<lparr>status = 200, json_body = Inr (JObj [(''report'', JStr ''X'')])\<rparr>)))"
  using report_shown [of "\<lparr>status = 200, json_body = Inr (JObj [(''report'', JStr ''X'')])\<rparr>"
      "JObj [(''report'', JStr ''X'')]" "''X''" v8 "loaded_page ''f'' ''t''"]
  by (simp add: ok_def)

text \<open>
  Claim C1 as stated fails for the body \<^verbatim>\<open>{"report": ""}\<close> with status 200: the body
  has a \<^verbatim>\<open>report\<close> field, yet the result area stays hidden and the error area shows
  the message for an unexpected response.
\<close>

theorem empty_report_counterexample:
  "ok \<lparr>status = 200, json_body = Inr (JObj [(''report'', JStr [])])\<rparr>
   \<and> field (JObj [(''report'', JStr [])]) ''report'' = Some (JStr [])
   \<and> \<not> visible (result_display (handle_submit v8 (loaded_page ''f'' ''t'')
        (Response \<lparr>status = 200, json_body = Inr (JObj [(''report'', JStr [])])\<rparr>)))
   \<and> visible (error_display (handle_submit v8 (loaded_page ''f'' ''t'')
        (Response \<lparr>status = 200, json_body = Inr (JObj [(''report'', JStr [])])\<rparr>)))
   \<and> error_text (handle_submit v8 (loaded_page ''f'' ''t'')
        (Response \<lparr>status = 200, json_body = Inr (JObj [(''report'', JStr [])])\<rparr>)) =
       ''Failed to generate report: Received an unexpected response from the server.''"
  by (simp add: empty_report_page ok_def visible_def)


section \<open>A response with a failure status\<close>

text \<open>
  The value of \<^verbatim>\<open>errorMsg\<close> that line 43 throws: the \<^verbatim>\<open>error\<close> field when it
  is a non-empty string, the status line when the body is not JSON, has no such field, or
  has a falsy one (\<^verbatim>\<open>errorData.error || errorMsg\<close>).
\<close>

lemma error_msg_string:
  "json_body resp = Inr data \<Longrightarrow> field data ''error'' = Some (JStr m) \<Longrightarrow> m \<noteq> [] \<Longrightarrow>
   error_msg eng resp = JStr m"
  by (simp add: error_msg_def get_prop_field)

lemma error_msg_status:
  "(case json_body resp of
      Inl e \<Rightarrow> True
    | Inr d \<Rightarrow> (case field d ''error'' of None \<Rightarrow> True | Some v \<Rightarrow> \<not> truthy v)) \<Longrightarrow>
   error_msg eng resp = JStr (''HTTP error! Status: '' @ show_nat (status resp))"
  by (cases "json_body resp"; cases "projr (json_body resp)")
     (auto simp: error_msg_def split: option.splits)

lemma not_ok_page:
  assumes "\<not> ok resp"
  shows "handle_submit eng w (Response resp) =
     w\<lparr>result_display := ''none'', error_display := ''block'', loading_display := ''none'',
       generate_disabled := False, report_text := [],
       error_text :=
         ''Failed to generate report: '' @ message (new_Error eng (error_msg eng resp)),
       requests := requests w @ [report_request w],
       console := console w @
         [(''Error generating report:'', message (new_Error eng (error_msg eng resp)))]\<rparr>"
proof -
  have "try_block eng (report_request w) (Response resp) =
      ([Fetch (report_request w), Await, Await], Some (new_Error eng (error_msg eng resp)))"
    using assms by (simp add: try_block_def)
  from failed_page [OF this] show ?thesis .
qed

text \<open>
  Claim C2, as amended: when the fetch resolves with a status outside 200 to 299, the
  handler treats it as a failure: the error area is shown and the result area stays
  hidden. If the body parses as JSON with an \<^verbatim>\<open>error\<close> field that is a non-empty
  string, the message is \<^verbatim>\<open>Failed to generate report: \<close> followed by that string. If
  the body does not parse as JSON, or has no \<^verbatim>\<open>error\<close> field, or the field is falsy
  (the empty string, \<^verbatim>\<open>null\<close>, \<^verbatim>\<open>false\<close>, zero), the message is
  \<^verbatim>\<open>Failed to generate report: HTTP error! Status: \<close> followed by the status code in
  decimal.
\<close>

theorem http_failure_shown:
  assumes "\<not> ok resp"
  shows "(json_body resp = Inr data \<and> field data ''error'' = Some (JStr m) \<and> m \<noteq> [] \<longrightarrow>
            error_text (handle_submit eng w (Response resp)) =
              ''Failed to generate report: '' @ m)
       \<and> ((case json_body resp of
              Inl e \<Rightarrow> True
            | Inr d \<Rightarrow> (case field d ''error'' of None \<Rightarrow> True | Some v \<Rightarrow> \<not> truthy v)) \<longrightarrow>
            error_text (handle_submit eng w (Response resp)) =
              ''Failed to generate report: HTTP error! Status: '' @ show_nat (status resp))
       \<and> visible (error_display (handle_submit eng w (Response resp)))
       \<and> \<not> visible (result_display (handle_submit eng w (Response resp)))"
  by (simp add: not_ok_page [OF assms] error_msg_string error_msg_status new_Error_def)

text \<open>
  The two cases at status 400: the body \<^verbatim>\<open>{"error": "Y"}\<close>, and a body that is not
  JSON.
\<close>

theorem http_failure_shown_witness:
  "\<not> ok \<lparr>status = 400, json_body = Inr (JObj [(''error'', JStr ''Y'')])\<rparr>
   \<and> error_text (handle_submit v8 (loaded_page ''f'' ''t'')
        (Response \<lparr>status = 400, json_body = Inr (JObj [(''error'', JStr ''Y'')])\<rparr>)) =
      ''Failed to generate report: Y''
   \<and> visible (error_display (handle_submit v8 (loaded_page ''f'' ''t'')
        (Response \<lparr>status = 400, json_body = Inr (JObj [(''error'', JStr ''Y'')])\<rparr>)))
   \<and> \<not> visible (result_display (handle_submit v8 (loaded_page ''f'' ''t'')
        (Response \<lparr>status = 400, json_body = Inr (JObj [(''error'', JStr ''Y'')])\<rparr>)))
   \<and> error_text (handle_submit v8 (loaded_page ''f'' ''t'')
        (Response \<lparr>status = 400, json_body = Inl (Rejected ''Unexpected token <'')\<rparr>)) =
      ''Failed to generate report: HTTP error! Status: 400''"
  using http_failure_shown [of "\<lparr>status = 400, json_body = Inr (JObj [(''error'', JStr ''Y'')])\<rparr>"
      "JObj [(''error'', JStr ''Y'')]" "''Y''" v8 "loaded_page ''f'' ''t''"]
    http_failure_shown [of "\<lparr>status = 400, json_body = Inl (Rejected ''Unexpected token <'')\<rparr>"
      JNull "[]" v8 "loaded_page ''f'' ''t''"]
  by (simp add: ok_def show_nat_400)

text \<open>
  Claim C2 as stated fails for the body \<^verbatim>\<open>{"error": ""}\<close> with status 400: the body
  parses as JSON and has an \<^verbatim>\<open>error\<close> field, yet the message is not the prefix
  followed by that field's value but the one with the status code.
\<close>

theorem empty_http_error_counterexample:
  "\<not> ok \<lparr>status = 400, json_body = Inr (JObj [(''error'', JStr [])])\<rparr>
   \<and> field (JObj [(''error'', JStr [])]) ''error'' = Some (JStr [])
   \<and> error_text (handle_submit v8 (loaded_page ''f'' ''t'')
        (Response \<lparr>status = 400, json_body = Inr (JObj [(''error'', JStr [])])\<rparr>)) \<noteq>
       ''Failed to generate report: '' @ []
   \<and> error_text (handle_submit v8 (loaded_page ''f'' ''t'')
        (Response \<lparr>status = 400, json_body = Inr (JObj [(''error'', JStr [])])\<rparr>)) =
       ''Failed to generate report: HTTP error! Status: 400''"
  by (simp add: not_ok_page ok_def error_msg_def new_Error_def show_nat_400)

section \<open>A 2xx response without a report\<close>

lemma empty_error_page:
  "handle_submit eng w
     (Response \<lparr>status = 200, json_body = Inr (JObj [(''error'', JStr [])])\<rparr>) =
   w\<lparr>result_display := ''none'', error_display := ''block'', loading_display := ''none'',
     generate_disabled := False, report_text := [],
     error_text :=
       ''Failed to generate report: Received an unexpected response from the server.'',
     requests := requests w @ [report_request w],
     console := console w @
       [(''Error generating report:'', ''Received an unexpected response from the server.'')]\<rparr>"
proof -
  have "try_block eng (report_request w)
      (Response \<lparr>status = 200, json_body = Inr (JObj [(''error'', JStr [])])\<rparr>) =
      ([Fetch (report_request w), Await, Await],
       Some (Error ''Received an unexpected response from the server.''))"
    by (simp add: try_block_def ok_def no_report_def)
  from failed_page [OF this] show ?thesis by simp
qed

lemma null_body_page:
  "handle_submit eng w (Response \<lparr>status = 200, json_body = Inr JNull\<rparr>) =
   w\<lparr>result_display := ''none'', error_display := ''block'', loading_display := ''none'',
     generate_disabled := False, report_text := [],
     error_text := ''Failed to generate report: '' @ null_property_message eng ''report'',
     requests := requests w @ [report_request w],
     console := console w @
       [(''Error generating report:'', null_property_message eng ''report'')]\<rparr>"
proof -
  have "try_block eng (report_request w) (Response \<lparr>status = 200, json_body = Inr JNull\<rparr>) =
      ([Fetch (report_request w), Await, Await],
       Some (TypeError (null_property_message eng ''report'')))"
    by (simp add: try_block_def ok_def)
  from failed_page [OF this] show ?thesis by simp
qed

text \<open>
  Claim C5, as amended: when the fetch resolves with a 2xx status and a JSON body that has
  no \<^verbatim>\<open>report\<close> field and whose \<^verbatim>\<open>error\<close> field is a non-empty string, the
  handler treats it as a failure: the error area becomes visible and shows
  \<^verbatim>\<open>Failed to generate report: \<close> followed by that string unchanged, and the result
  area stays hidden.
\<close>

theorem server_error_shown:
  assumes "ok resp" and "json_body resp = Inr data"
    and "field data ''report'' = None"
    and "field data ''error'' = Some (JStr m)" and "m \<noteq> []"
  shows "error_text (handle_submit eng w (Response resp)) = ''Failed to generate report: '' @ m
       \<and> visible (error_display (handle_submit eng w (Response resp)))
       \<and> \<not> visible (result_display (handle_submit eng w (Response resp)))"
proof -
  have "data \<noteq> JNull" using assms(4) by auto
  then have "try_block eng (report_request w) (Response resp) =
      ([Fetch (report_request w), Await, Await], Some (Error m))"
    using assms by (simp add: try_block_def no_report_def get_prop_not_null new_Error_def)
  from failed_page [OF this] show ?thesis
    by simp
qed

theorem server_error_shown_witness:
  "ok \<lparr>status = 200, json_body = Inr (JObj [(''error'', JStr ''Y'')])\<rparr>
   \<and> error_text (handle_submit v8 (loaded_page ''f'' ''t'')
        (Response \<lparr>status = 200, json_body = Inr (JObj [(''error'', JStr ''Y'')])\<rparr>)) =
      ''Failed to generate report: Y''
   \<and> visible (error_display (handle_submit v8 (loaded_page ''f'' ''t'')
        (Response \<lparr>status = 200, json_body = Inr (JObj [(''error'', JStr ''Y'')])\<rparr>)))
   \<and> \<not> visible (result_display (handle_submit v8 (loaded_page ''f'' ''t'')
        (Response \<lparr>status = 200, json_body = Inr (JObj [(''error'', JStr ''Y'')])\<rparr>)))"
  using server_error_shown [of "\<lparr>status = 200, json_body = Inr (JObj [(''error'', JStr ''Y'')])\<rparr>"
      "JObj [(''error'', JStr ''Y'')]" "''Y''" v8 "loaded_page ''f'' ''t''"]
  by (simp add: ok_def)

text \<open>
  Claim C5 as stated fails for the body \<^verbatim>\<open>{"error": ""}\<close> with status 200: the test
  of line 51 is a truthiness test too, so the message shown is not the prefix followed by
  the field's value but the one for an unexpected response.
\<close>

theorem empty_error_counterexample:
  "ok \<lparr>status = 200, json_body = Inr (JObj [(''error'', JStr [])])\<rparr>
   \<and> field (JObj [(''error'', JStr [])]) ''report'' = None
   \<and> field (JObj [(''error'', JStr [])]) ''error'' = Some (JStr [])
   \<and> error_text (handle_submit v8 (loaded_page ''f'' ''t'')
        (Response \<lparr>status = 200, json_body = Inr (JObj [(''error'', JStr [])])\<rparr>)) \<noteq>
       ''Failed to generate report: '' @ []
   \<and> error_text (handle_submit v8 (loaded_page ''f'' ''t'')
        (Response \<lparr>status = 200, json_body = Inr (JObj [(''error'', JStr [])])\<rparr>)) =
       ''Failed to generate report: Received an unexpected response from the server.''"
  by (simp add: empty_error_page ok_def)

text \<open>
  The last branch (lines 53 and 54) gives the message for an unexpected response to every
  JSON body that has neither a \<^verbatim>\<open>report\<close> nor an \<^verbatim>\<open>error\<close> field, \<^verbatim>\<open>null\<close>
  apart: an object without them such as \<^verbatim>\<open>{}\<close>, an array, a string, a number, a
  boolean.
\<close>

lemma unexpected_response_shown:
  assumes "ok resp" and "json_body resp = Inr data" and "data \<noteq> JNull"
    and "field data ''report'' = None" and "field data ''error'' = None"
  shows "error_text (handle_submit eng w (Response resp)) =
           ''Failed to generate report: Received an unexpected response from the server.''
       \<and> visible (error_display (handle_submit eng w (Response resp)))
       \<and> \<not> visible (result_display (handle_submit eng w (Response resp)))"
proof -
  have "try_block eng (report_request w) (Response resp) =
      ([Fetch (report_request w), Await, Await],
       Some (Error ''Received an unexpected response from the server.''))"
    using assms by (simp add: try_block_def no_report_def get_prop_not_null)
  from failed_page [OF this] show ?thesis
    by simp
qed

lemma empty_object_response:
  "ok \<lparr>status = 200, json_body = Inr (JObj [])\<rparr>
   \<and> error_text (handle_submit v8 (loaded_page ''f'' ''t'')
        (Response \<lparr>status = 200, json_body = Inr (JObj [])\<rparr>)) =
      ''Failed to generate report: Received an unexpected response from the server.''
   \<and> visible (error_display (handle_submit v8 (loaded_page ''f'' ''t'')
        (Response \<lparr>status = 200, json_body = Inr (JObj [])\<rparr>)))
   \<and> \<not> visible (result_display (handle_submit v8 (loaded_page ''f'' ''t'')
        (Response \<lparr>status = 200, json_body = Inr (JObj [])\<rparr>)))"
  using unexpected_response_shown [of "\<lparr>status = 200, json_body = Inr (JObj [])\<rparr>"
      "JObj []" v8 "loaded_page ''f'' ''t''"]
  by (simp add: ok_def)

lemma show_nat_500: "show_nat 500 = ''500''"
  by (simp add: show_nat.simps [of 500] show_nat.simps [of 50] show_nat.simps [of 5] digit_def)

text \<open>
  Claim C6: when the fetch resolves with a 2xx status and a JSON body that has neither a
  \<^verbatim>\<open>report\<close> nor an \<^verbatim>\<open>error\<close> field, the error area shows exactly
  \<^verbatim>\<open>Failed to generate report: Received an unexpected response from the server.\<close>
  The code misses one such body. \<^verbatim>\<open>null\<close> with status 200 is valid JSON and has
  neither field, but line 48 reads \<^verbatim>\<open>data.report\<close> unguarded: the read throws before
  the last branch is reached, and the error area shows the message of that
  \<^verbatim>\<open>TypeError\<close>, which depends on the engine. The path for a failure status does
  give its generic message for the same body, since there the read is inside the inner
  \<^verbatim>\<open>try\<close>.
\<close>

theorem null_body_message:
  "ok \<lparr>status = 200, json_body = Inr JNull\<rparr>
   \<and> field JNull ''report'' = None \<and> field JNull ''error'' = None
   \<and> error_text (handle_submit v8 (loaded_page ''f'' ''t'')
        (Response \<lparr>status = 200, json_body = Inr JNull\<rparr>)) =
       ''Failed to generate report: Cannot read properties of null (reading 'report')''
   \<and> error_text (handle_submit v8 (loaded_page ''f'' ''t'')
        (Response \<lparr>status = 200, json_body = Inr JNull\<rparr>)) \<noteq>
       ''Failed to generate report: Received an unexpected response from the server.''
   \<and> error_text (handle_submit v8 (loaded_page ''f'' ''t'')
        (Response \<lparr>status = 500, json_body = Inr JNull\<rparr>)) =
       ''Failed to generate report: HTTP error! Status: 500''"
  by (simp add: null_body_page not_ok_page ok_def v8_def error_msg_def new_Error_def show_nat_500)

section \<open>A 2xx response that is not JSON\<close>

text \<open>
  Claim C10: when the fetch resolves with a 2xx status and a body that is not valid JSON,
  no error leaves the handler: the rejection of \<^verbatim>\<open>response.json()\<close> is caught by the
  outer \<^verbatim>\<open>catch\<close>, the error area becomes visible and shows
  \<^verbatim>\<open>Failed to generate report: \<close> followed by the message of the parse error, and the
  \<^verbatim>\<open>finally\<close> block still hides the loading indicator and enables the button.
\<close>

theorem parse_failure_caught:
  assumes "ok resp" and "json_body resp = Inl e"
  shows "snd (submit_handler eng w (Response resp)) = None
       \<and> error_text (handle_submit eng w (Response resp)) =
           ''Failed to generate report: '' @ message e
       \<and> visible (error_display (handle_submit eng w (Response resp)))
       \<and> loading_display (handle_submit eng w (Response resp)) = ''none''
       \<and> \<not> generate_disabled (handle_submit eng w (Response resp))"
proof -
  have tb: "try_block eng (report_request w) (Response resp) =
      ([Fetch (report_request w), Await, Await], Some e)"
    using assms by (simp add: try_block_def)
  from failed_page [OF tb] submit_thrown [OF tb] show ?thesis
    by simp
qed

theorem parse_failure_caught_witness:
  "ok \<lparr>status = 200, json_body = Inl (Rejected ''Unexpected token <'')\<rparr>
   \<and> snd (submit_handler v8 (loaded_page ''f'' ''t'')
        (Response \<lparr>status = 200, json_body = Inl (Rejected ''Unexpected token <'')\<rparr>)) = None
   \<and> error_text (handle_submit v8 (loaded_page ''f'' ''t'')
        (Response \<lparr>status = 200, json_body = Inl (Rejected ''Unexpected token <'')\<rparr>)) =
        ''Failed to generate report: Unexpected token <''
   \<and> visible (error_display (handle_submit v8 (loaded_page ''f'' ''t'')
        (Response \<lparr>status = 200, json_body = Inl (Rejected ''Unexpected token <'')\<rparr>)))
   \<and> loading_display (handle_submit v8 (loaded_page ''f'' ''t'')
        (Response \<lparr>status = 200, json_body = Inl (Rejected ''Unexpected token <'')\<rparr>)) = ''none''
   \<and> \<not> generate_disabled (handle_submit v8 (loaded_page ''f'' ''t'')
        (Response \<lparr>status = 200, json_body = Inl (Rejected ''Unexpected token <'')\<rparr>))"
  using parse_failure_caught [of "\<lparr>status = 200, json_body = Inl (Rejected ''Unexpected token <'')\<rparr>"
      "Rejected ''Unexpected token <''" v8 "loaded_page ''f'' ''t''"]
  by (simp add: ok_def)


section \<open>Every run of the submit handler\<close>

text \<open>
  Claim C7: for every pair of values read from the two inputs, one submission issues
  exactly one request: a \<^verbatim>\<open>POST\<close> to the fixed path \<^verbatim>\<open>/generate_report\<close>, with the
  header \<^verbatim>\<open>Content-Type: application/json\<close> and as body the object with exactly the
  two keys \<^verbatim>\<open>findings\<close> and \<^verbatim>\<open>template\<close>, bound to those values. This holds
  whatever the platform answers.
\<close>

theorem one_post_request:
  "requests (handle_submit eng w oc) = requests w @
      [\<lparr>url = ''/generate_report'', http_method = ''POST'',
        headers = [(''Content-Type'', ''application/json'')],
        body = JObj [(''findings'', JStr (findings_value w)),
                     (''template'', JStr (template_value w))]\<rparr>]
   \<and> filter is_fetch (fst (submit_handler eng w oc)) =
      [Fetch \<lparr>url = ''/generate_report'', http_method = ''POST'',
        headers = [(''Content-Type'', ''application/json'')],
        body = JObj [(''findings'', JStr (findings_value w)),
                     (''template'', JStr (template_value w))]\<rparr>]"
  using submit_shape [of eng w oc]
  by (auto simp: handle_submit_def reset_actions_def catch_block_def finally_block_def
      report_request_def)

theorem one_post_request_witness:
  "requests (handle_submit v8 (loaded_page ''opacity'' ''chest'')
      (NetworkFailure (Rejected ''Failed to fetch''))) =
      [\<lparr>url = ''/generate_report'', http_method = ''POST'',
        headers = [(''Content-Type'', ''application/json'')],
        body = JObj [(''findings'', JStr ''opacity''), (''template'', JStr ''chest'')]\<rparr>]"
  using one_post_request [of v8 "loaded_page ''opacity'' ''chest''"
      "NetworkFailure (Rejected ''Failed to fetch'')"]
  by (simp add: loaded_page_def)

text \<open>
  Claim C3: on every exit path of a submission the last page has the loading indicator
  hidden and the generate button enabled, and no error leaves the handler. At every point
  from the statement that sends the request up to the last statement of the run the
  button is disabled: so it is wherever the handler is suspended while the request is in
  flight, and it stays so whatever the copy handler, its timers and the user's edits of
  the inputs do meanwhile.
\<close>

theorem always_finalized:
  "snd (submit_handler eng w oc) = None
   \<and> loading_display (handle_submit eng w oc) = ''none''
   \<and> \<not> generate_disabled (handle_submit eng w oc)
   \<and> (\<forall>s \<in> set (in_flight_pages (fst (submit_handler eng w oc)) w). generate_disabled s)
   \<and> (\<forall>s \<in> set (suspended_pages (fst (submit_handler eng w oc)) w). generate_disabled s)
   \<and> set (suspended_pages (fst (submit_handler eng w oc)) w)
       \<subseteq> set (in_flight_pages (fst (submit_handler eng w oc)) w)
   \<and> suspended_pages (fst (submit_handler eng w oc)) w \<noteq> []
   \<and> (script_timers w \<longrightarrow>
        (\<forall>s \<in> set (suspended_pages (fst (submit_handler eng w oc)) w).
           \<forall>s'. meanwhile s s' \<longrightarrow> generate_disabled s'))"
proof -
  have run: "loading_display (handle_submit eng w oc) = ''none''
   \<and> \<not> generate_disabled (handle_submit eng w oc)
   \<and> (\<forall>s \<in> set (in_flight_pages (fst (submit_handler eng w oc)) w). generate_disabled s)
   \<and> (\<forall>s \<in> set (suspended_pages (fst (submit_handler eng w oc)) w). generate_disabled s)
   \<and> set (suspended_pages (fst (submit_handler eng w oc)) w)
       \<subseteq> set (in_flight_pages (fst (submit_handler eng w oc)) w)"
    using submit_shape [of eng w oc]
    by (auto simp: handle_submit_def reset_actions_def catch_block_def finally_block_def
        in_flight_pages_def suspended_pages_def)
  have "generate_disabled s'"
    if "script_timers w" and "s \<in> set (suspended_pages (fst (submit_handler eng w oc)) w)"
      and "meanwhile s s'" for s s'
  proof -
    from that(1) suspended_timers [OF that(2)] have "script_timers s"
      by (simp add: script_timers_def)
    with meanwhile_regions [OF that(3)] have "regions s' = regions s" by simp
    moreover from run that(2) have "generate_disabled s" by simp
    ultimately show ?thesis by (simp add: regions_def)
  qed
  with run submit_caught [of eng w oc] suspended_somewhere [of eng w oc] show ?thesis
    by blast
qed

text \<open>
  A submission that fails in the network; while it is suspended the report is copied and
  time passes.
\<close>

theorem always_finalized_witness:
  "snd (submit_handler v8 (loaded_page ''f'' ''t'')
      (NetworkFailure (Rejected ''Failed to fetch''))) = None
   \<and> loading_display (handle_submit v8 (loaded_page ''f'' ''t'')
      (NetworkFailure (Rejected ''Failed to fetch''))) = ''none''
   \<and> \<not> generate_disabled (handle_submit v8 (loaded_page ''f'' ''t'')
      (NetworkFailure (Rejected ''Failed to fetch'')))
   \<and> list_all generate_disabled (in_flight_pages (fst (submit_handler v8 (loaded_page ''f'' ''t'')
      (NetworkFailure (Rejected ''Failed to fetch'')))) (loaded_page ''f'' ''t''))
   \<and> list_all generate_disabled (suspended_pages (fst (submit_handler v8 (loaded_page ''f'' ''t'')
      (NetworkFailure (Rejected ''Failed to fetch'')))) (loaded_page ''f'' ''t''))
   \<and> suspended_pages (fst (submit_handler v8 (loaded_page ''f'' ''t'')
      (NetworkFailure (Rejected ''Failed to fetch'')))) (loaded_page ''f'' ''t'') \<noteq> []
   \<and> generate_disabled (advance 2000 (handle_copy
        (hd (suspended_pages (fst (submit_handler v8 (loaded_page ''f'' ''t'')
           (NetworkFailure (Rejected ''Failed to fetch'')))) (loaded_page ''f'' ''t'')))
        WriteOk))"
proof -
  let ?pages = "suspended_pages (fst (submit_handler v8 (loaded_page ''f'' ''t'')
      (NetworkFailure (Rejected ''Failed to fetch'')))) (loaded_page ''f'' ''t'')"
  note fact = always_finalized [of v8 "loaded_page ''f'' ''t''"
      "NetworkFailure (Rejected ''Failed to fetch'')"]
  from fact have "hd ?pages \<in> set ?pages" by simp
  moreover have "meanwhile (hd ?pages) (advance 2000 (handle_copy (hd ?pages) WriteOk))"
    by (intro meanwhile.intros)
  ultimately have "generate_disabled (advance 2000 (handle_copy (hd ?pages) WriteOk))"
    using fact script_timers_loaded [of "''f''" "''t''"] by blast
  with fact show ?thesis by (simp add: list_all_iff)
qed

section \<open>The three regions during a run\<close>

lemma reset_steps:
  "at_most_one_visible w \<Longrightarrow> list_all tidy_step (steps reset_actions w)"
  by (simp add: reset_actions_def tidy_step_def at_most_one_visible_iff)

lemma thrown_steps:
  "list_all tidy_step
     (steps ([Fetch r, Await] @ fst (catch_block e) @ fst finally_block)
        (exec reset_actions w))"
  "list_all tidy_step
     (steps ([Fetch r, Await, Await] @ fst (catch_block e) @ fst finally_block)
        (exec reset_actions w))"
  by (simp_all add: reset_page catch_block_def finally_block_def tidy_step_def
      at_most_one_visible_iff)

lemma normal_steps:
  "list_all tidy_step
     (steps ([Fetch r, Await, Await, SetTextContent ReportOutput t,
         SetDisplay ResultArea ''block''] @ fst finally_block) (exec reset_actions w))"
  by (simp add: reset_page finally_block_def tidy_step_def at_most_one_visible_iff)

lemma submit_steps:
  assumes "at_most_one_visible w"
  shows "list_all tidy_step (steps (fst (submit_handler eng w oc)) w)"
  using submit_shape [of eng w oc] reset_steps [OF assms] thrown_steps normal_steps
  by (auto simp: steps_append)

text \<open>
  Claim C4, as amended: in a run of the submit handler that starts with at most one of
  the loading indicator, the result area and the error area visible, every statement
  leaves at most one of them visible, except the statement that shows the result area
  (line 50) and the one that shows the error area (line 60): these run while the loading
  indicator is still displayed, and the \<^verbatim>\<open>finally\<close> block hides it before the handler
  gives up control. So wherever the handler is suspended, and where it ends, at most one
  region is visible.
\<close>

theorem one_region_between_turns:
  assumes "at_most_one_visible w"
  shows "(\<forall>(a, s) \<in> set (steps (fst (submit_handler eng w oc)) w).
            a \<noteq> SetDisplay ResultArea ''block'' \<and> a \<noteq> SetDisplay ErrorArea ''block'' \<longrightarrow>
            at_most_one_visible s)
       \<and> (\<forall>s \<in> set (suspended_pages (fst (submit_handler eng w oc)) w). at_most_one_visible s)
       \<and> at_most_one_visible (handle_submit eng w oc)"
proof -
  have tidy: "tidy_step p" if "p \<in> set (steps (fst (submit_handler eng w oc)) w)" for p
    using submit_steps [OF assms, of eng oc] that by (simp add: list_all_iff)
  have "at_most_one_visible s"
    if "(a, s) \<in> set (steps (fst (submit_handler eng w oc)) w)"
      and "a \<noteq> SetDisplay ResultArea ''block''" and "a \<noteq> SetDisplay ErrorArea ''block''"
    for a s
    using tidy [OF that(1)] that(2,3) by (simp add: tidy_step_def)
  moreover have "at_most_one_visible s"
    if "s \<in> set (suspended_pages (fst (submit_handler eng w oc)) w)" for s
  proof -
    from that have "(Await, s) \<in> set (steps (fst (submit_handler eng w oc)) w)"
      by (auto simp: suspended_pages_def)
    from tidy [OF this] show ?thesis by (simp add: tidy_step_def)
  qed
  moreover have "at_most_one_visible (handle_submit eng w oc)"
    using ended_regions [of eng w oc] by (auto simp: at_most_one_visible_iff)
  ultimately show ?thesis by blast
qed

theorem one_region_between_turns_witness:
  "at_most_one_visible (loaded_page ''f'' ''t'')
   \<and> list_all at_most_one_visible (suspended_pages (fst (submit_handler v8 (loaded_page ''f'' ''t'')
        (Response \<lparr>status = 200, json_body = Inr (JObj [(''report'', JStr ''X'')])\<rparr>)))
        (loaded_page ''f'' ''t''))
   \<and> suspended_pages (fst (submit_handler v8 (loaded_page ''f'' ''t'')
        (Response \<lparr>status = 200, json_body = Inr (JObj [(''report'', JStr ''X'')])\<rparr>)))
        (loaded_page ''f'' ''t'') \<noteq> []
   \<and> at_most_one_visible (handle_submit v8 (loaded_page ''f'' ''t'')
        (Response \<lparr>status = 200, json_body = Inr (JObj [(''report'', JStr ''X'')])\<rparr>))"
proof -
  have start: "at_most_one_visible (loaded_page ''f'' ''t'')"
    by (simp add: at_most_one_visible_iff loaded_page_def)
  from one_region_between_turns [OF start, of v8
      "Response \<lparr>status = 200, json_body = Inr (JObj [(''report'', JStr ''X'')])\<rparr>"]
    start suspended_somewhere [of v8 "loaded_page ''f'' ''t''"
      "Response \<lparr>status = 200, json_body = Inr (JObj [(''report'', JStr ''X'')])\<rparr>"]
  show ?thesis by (simp add: list_all_iff)
qed

text \<open>
  Claim C4 as stated fails in the run that shows the report \<^verbatim>\<open>X\<close>: the page left by
  its twelfth action, \<^verbatim>\<open>resultArea.style.display = 'block'\<close>, has both the result
  area and the loading indicator displayed.
\<close>

theorem both_displayed_counterexample:
  "at_most_one_visible (loaded_page ''f'' ''t'')
   \<and> steps (fst (submit_handler v8 (loaded_page ''f'' ''t'')
        (Response \<lparr>status = 200, json_body = Inr (JObj [(''report'', JStr ''X'')])\<rparr>)))
        (loaded_page ''f'' ''t'') ! 11
      \<in> set (steps (fst (submit_handler v8 (loaded_page ''f'' ''t'')
        (Response \<lparr>status = 200, json_body = Inr (JObj [(''report'', JStr ''X'')])\<rparr>)))
        (loaded_page ''f'' ''t''))
   \<and> fst (steps (fst (submit_handler v8 (loaded_page ''f'' ''t'')
        (Response \<lparr>status = 200, json_body = Inr (JObj [(''report'', JStr ''X'')])\<rparr>)))
        (loaded_page ''f'' ''t'') ! 11) = SetDisplay ResultArea ''block''
   \<and> visible (loading_display (snd (steps (fst (submit_handler v8 (loaded_page ''f'' ''t'')
        (Response \<lparr>status = 200, json_body = Inr (JObj [(''report'', JStr ''X'')])\<rparr>)))
        (loaded_page ''f'' ''t'') ! 11)))
   \<and> visible (result_display (snd (steps (fst (submit_handler v8 (loaded_page ''f'' ''t'')
        (Response \<lparr>status = 200, json_body = Inr (JObj [(''report'', JStr ''X'')])\<rparr>)))
        (loaded_page ''f'' ''t'') ! 11)))
   \<and> \<not> at_most_one_visible (snd (steps (fst (submit_handler v8 (loaded_page ''f'' ''t'')
        (Response \<lparr>status = 200, json_body = Inr (JObj [(''report'', JStr ''X'')])\<rparr>)))
        (loaded_page ''f'' ''t'') ! 11))"
proof -
  have "try_block v8 (report_request (loaded_page ''f'' ''t''))
      (Response \<lparr>status = 200, json_body = Inr (JObj [(''report'', JStr ''X'')])\<rparr>) =
      ([Fetch (report_request (loaded_page ''f'' ''t'')), Await, Await,
        SetTextContent ReportOutput ''X'', SetDisplay ResultArea ''block''], None)"
    by (simp add: try_block_def ok_def)
  from submit_normal [OF this] show ?thesis
    by (simp add: reset_actions_def finally_block_def at_most_one_visible_iff loaded_page_def)
qed

section \<open>Two submissions in sequence\<close>

text \<open>
  What the \<^verbatim>\<open>try\<close> block throws, and the report it shows, do not depend on the
  request that was sent.
\<close>

lemma try_block_thrown_request:
  "try_block eng req oc = (acts, Some e) \<Longrightarrow> \<exists>acts'. try_block eng req' oc = (acts', Some e)"
  by (auto simp: try_block_def split: fetch_outcome.splits sum.splits option.splits if_splits)

lemma try_block_normal_request:
  "try_block eng req oc =
     ([Fetch req, Await, Await, SetTextContent ReportOutput t,
       SetDisplay ResultArea ''block''], None) \<Longrightarrow>
   try_block eng req' oc =
     ([Fetch req', Await, Await, SetTextContent ReportOutput t,
       SetDisplay ResultArea ''block''], None)"
  by (auto simp: try_block_def split: fetch_outcome.splits sum.splits option.splits if_splits)

lemma regions_start: "regions (handle_submit eng w oc) = regions (handle_submit eng w' oc)"
proof (cases "try_block eng (report_request w) oc")
  case (Pair acts thrown)
  show ?thesis
  proof (cases thrown)
    case None
    with Pair try_block_normal [of eng "report_request w" oc acts]
    obtain t where t: "try_block eng (report_request w) oc =
      ([Fetch (report_request w), Await, Await, SetTextContent ReportOutput t,
        SetDisplay ResultArea ''block''], None)"
      by auto
    from succeeded_page [OF t]
      succeeded_page [OF try_block_normal_request [OF t, of "report_request w'"]]
    show ?thesis by (simp add: regions_def)
  next
    case (Some e)
    with Pair have t: "try_block eng (report_request w) oc = (acts, Some e)" by simp
    from try_block_thrown_request [OF t, of "report_request w'"]
    obtain acts' where t': "try_block eng (report_request w') oc = (acts', Some e)" by auto
    from failed_page [OF t] failed_page [OF t'] show ?thesis by (simp add: regions_def)
  qed
qed

text \<open>
  Claim C9: when two submissions run to completion one after the other (the inputs may
  be edited in between), what the three regions and the button show at the end is what
  the second submission alone gives from any page: it depends only on the second answer.
  Only one of the result area and the error area is displayed, and the text of the other
  is empty, so nothing the first submission wrote remains.
\<close>

theorem latest_submission_only:
  "regions (handle_submit eng
      ((handle_submit eng w first)\<lparr>findings_value := f, template_value := t\<rparr>) second) =
   regions (handle_submit eng w' second)
   \<and> loading_display (handle_submit eng
      ((handle_submit eng w first)\<lparr>findings_value := f, template_value := t\<rparr>) second) = ''none''
   \<and> (result_display (handle_submit eng
        ((handle_submit eng w first)\<lparr>findings_value := f, template_value := t\<rparr>) second) = ''block''
      \<and> error_display (handle_submit eng
        ((handle_submit eng w first)\<lparr>findings_value := f, template_value := t\<rparr>) second) = ''none''
      \<and> error_text (handle_submit eng
        ((handle_submit eng w first)\<lparr>findings_value := f, template_value := t\<rparr>) second) = []
     \<or> result_display (handle_submit eng
        ((handle_submit eng w first)\<lparr>findings_value := f, template_value := t\<rparr>) second) = ''none''
      \<and> error_display (handle_submit eng
        ((handle_submit eng w first)\<lparr>findings_value := f, template_value := t\<rparr>) second) = ''block''
      \<and> report_text (handle_submit eng
        ((handle_submit eng w first)\<lparr>findings_value := f, template_value := t\<rparr>) second) = [])"
  using regions_start [of eng
      "(handle_submit eng w first)\<lparr>findings_value := f, template_value := t\<rparr>" second w']
    ended_regions [of eng
      "(handle_submit eng w first)\<lparr>findings_value := f, template_value := t\<rparr>" second]
  by blast

text \<open>A report \<^verbatim>\<open>X\<close> first, then the server error \<^verbatim>\<open>Y\<close>: only the error is left.\<close>

theorem latest_submission_only_witness:
  "regions (handle_submit v8
      ((handle_submit v8 (loaded_page ''f'' ''t'')
          (Response \<lparr>status = 200, json_body = Inr (JObj [(''report'', JStr ''X'')])\<rparr>))
        \<lparr>findings_value := ''g'', template_value := ''u''\<rparr>)
      (Response \<lparr>status = 500, json_body = Inr (JObj [(''error'', JStr ''Y'')])\<rparr>)) =
   (''none'', [], ''block'', ''Failed to generate report: Y'', ''none'', False)"
proof -
  have "regions (handle_submit v8 (loaded_page ''f'' ''t'')
      (Response \<lparr>status = 500, json_body = Inr (JObj [(''error'', JStr ''Y'')])\<rparr>)) =
    (''none'', [], ''block'', ''Failed to generate report: Y'', ''none'', False)"
    by (simp add: not_ok_page ok_def error_msg_def new_Error_def regions_def)
  with latest_submission_only [where eng = v8 and w = "loaded_page ''f'' ''t''"
      and first = "Response \<lparr>status = 200, json_body = Inr (JObj [(''report'', JStr ''X'')])\<rparr>"
      and f = "''g''" and t = "''u''"
      and second = "Response \<lparr>status = 500, json_body = Inr (JObj [(''error'', JStr ''Y'')])\<rparr>"
      and w' = "loaded_page ''f'' ''t''"]
  show ?thesis by simp
qed


section \<open>Runs of the copy handler\<close>











end
